theory Spec2Isabelle
  imports Main
begin

section \<open>Data model\<close>

text \<open>
  Identifiers (user ids, whiteboard ids, socket ids, room names) are strings, as in the
  TypeScript source. The \<open>User\<close> entity is reduced to the two fields the gateway reads.
\<close>

record user =
  user_id :: string
  email :: string

record whiteboard =
  whiteboard_id :: string
  owner :: user

text \<open>
  The persistence layer the service queries: the whiteboard repository and the rows of the
  collaborator table, each row a pair (whiteboard id, user id).
\<close>

record database =
  whiteboardRepository :: "whiteboard list"
  collaboratorRows :: "(string \<times> string) list"

datatype http_exception = NotFoundException string | ForbiddenException string

fun message :: "http_exception \<Rightarrow> string" where
  "message (NotFoundException m) = m"
| "message (ForbiddenException m) = m"

text \<open>
  Events the gateway emits. \<open>JoinError\<close> and \<open>DrawUpdateError\<close> carry the whiteboard id and
  the message; \<open>DrawUpdate\<close> carries whiteboard id, update type, the opaque drawing data, the
  sender's user id and the server timestamp.
\<close>

datatype event =
    JoinedWhiteboard string
  | JoinError string string
  | UserJoined string string string
  | DrawUpdate string string "string option" string string
  | DrawUpdateError string string
  | UserLeft string string string
  | LeftWhiteboard string

fun is_error :: "event \<Rightarrow> bool" where
  "is_error (JoinError w m) = True"
| "is_error (DrawUpdateError w m) = True"
| "is_error e = False"

fun is_draw_update :: "event \<Rightarrow> bool" where
  "is_draw_update (DrawUpdate w t d u ts) = True"
| "is_draw_update e = False"

fun is_user_joined :: "event \<Rightarrow> bool" where
  "is_user_joined (UserJoined u e w) = True"
| "is_user_joined e = False"

text \<open>A delivery is an event together with the set of sockets it is sent to.\<close>

type_synonym delivery = "string set \<times> event"

text \<open>
  The gateway's state: the private map \<open>userRooms\<close> (user id to the set of whiteboard ids)
  and the transport's room registry (room name to the sockets registered in it).
\<close>

record gateway =
  userRooms :: "string \<rightharpoonup> string set"
  rooms :: "string \<Rightarrow> string set"

text \<open>
  The handshake of a connection, as far as token extraction reads it: \<open>auth.token\<close>, the
  query parameter \<open>token\<close> (a string or an array of strings), and the headers \<open>cookie\<close>
  and \<open>authorization\<close>. \<open>None\<close> stands for an absent (undefined) value.
\<close>

datatype query_value = QString string | QArray "string list"

record handshake_data =
  auth_token :: "string option"
  query_token :: "query_value option"
  cookie :: "string option"
  authorization :: "string option"

record socket =
  socket_id :: string
  data_user :: "user option"
  data_userId :: "string option"
  handshake :: handshake_data

section \<open>Transport primitives\<close>

text \<open>
  \<open>client.join(room)\<close>, \<open>client.leave(room)\<close>, \<open>client.emit(ev)\<close> and
  \<open>client.to(room).emit(ev)\<close> of the socket library: joining and leaving edit the room's
  socket set, a private emit reaches the client only, a room emit reaches every socket of the
  room but the client.
\<close>

definition client_join :: "string \<Rightarrow> string \<Rightarrow> (string \<Rightarrow> string set) \<Rightarrow> (string \<Rightarrow> string set)" where
  "client_join sid room rs = rs(room := insert sid (rs room))"

definition client_leave :: "string \<Rightarrow> string \<Rightarrow> (string \<Rightarrow> string set) \<Rightarrow> (string \<Rightarrow> string set)" where
  "client_leave sid room rs = rs(room := rs room - {sid})"

definition client_emit :: "string \<Rightarrow> event \<Rightarrow> delivery" where
  "client_emit sid ev = ({sid}, ev)"

definition client_to_emit :: "(string \<Rightarrow> string set) \<Rightarrow> string \<Rightarrow> string \<Rightarrow> event \<Rightarrow> delivery" where
  "client_to_emit rs sid room ev = (rs room - {sid}, ev)"

text \<open>The events a given socket receives from a list of deliveries, in order.\<close>

definition received :: "delivery list \<Rightarrow> string \<Rightarrow> event list" where
  "received out s = map snd (filter (\<lambda>d. s \<in> fst d) out)"

section \<open>Access control (WhiteboardsService)\<close>

definition findOne :: "database \<Rightarrow> string \<Rightarrow> whiteboard option" where
  "findOne db whiteboardId = find (\<lambda>w. whiteboard_id w = whiteboardId) (whiteboardRepository db)"

text \<open>
  Modelled from the spec: \<open>findCollaboratorByUserAndWhiteboard\<close> of the collaborators
  service is not part of the sources at hand. The spec grants access to "an accepted
  collaborator"; the lookup returns the collaborator row of the user on the board, if any.
\<close>

definition findCollaboratorByUserAndWhiteboard :: "database \<Rightarrow> string \<Rightarrow> string \<Rightarrow> (string \<times> string) option" where
  "findCollaboratorByUserAndWhiteboard db whiteboardId userId =
     find (\<lambda>row. row = (whiteboardId, userId)) (collaboratorRows db)"

definition hasAccess :: "database \<Rightarrow> whiteboard \<Rightarrow> user \<Rightarrow> bool" where
  "hasAccess db wb u =
     (if user_id (owner wb) = user_id u then True
      else findCollaboratorByUserAndWhiteboard db (whiteboard_id wb) (user_id u) \<noteq> None)"

definition findByIdWithAccess :: "database \<Rightarrow> string \<Rightarrow> user \<Rightarrow> http_exception + whiteboard" where
  "findByIdWithAccess db whiteboardId u =
     (case findOne db whiteboardId of
        None \<Rightarrow> Inl (NotFoundException ''Whiteboard not found'')
      | Some wb \<Rightarrow>
          if \<not> hasAccess db wb u
          then Inl (ForbiddenException ''You do not have permission to access this whiteboard'')
          else Inr wb)"

section \<open>The gateway's handlers\<close>

definition roomName :: "string \<Rightarrow> string" where
  "roomName whiteboardId = ''whiteboard:'' @ whiteboardId"

text \<open>The membership set of a user: empty when the table has no entry.\<close>

definition membership :: "gateway \<Rightarrow> string \<Rightarrow> string set" where
  "membership st userId = (case userRooms st userId of None \<Rightarrow> {} | Some s \<Rightarrow> s)"

text \<open>
  \<open>handleJoinWhiteboard\<close>: the access check first; on success the socket joins the room
  \<open>whiteboard:<id>\<close>, the id is added to the user's set (created when missing), the client
  gets \<open>joined_whiteboard\<close> and the rest of the room \<open>user_joined\<close>. Any exception of the
  access check is caught and answered with a private \<open>join_error\<close>. The room-size lookup of
  the source feeds the log only and is left out. The transport calls are total here, so the
  access check is the only step of the \<open>try\<close> block that can throw.
\<close>

definition handleJoinWhiteboard ::
  "database \<Rightarrow> gateway \<Rightarrow> string \<Rightarrow> user \<Rightarrow> string \<Rightarrow> gateway \<times> delivery list" where
  "handleJoinWhiteboard db st sid u whiteboardId =
     (case findByIdWithAccess db whiteboardId u of
        Inr wb \<Rightarrow>
          (let rs = client_join sid (roomName whiteboardId) (rooms st);
               ur = (if userRooms st (user_id u) = None
                     then (userRooms st)(user_id u \<mapsto> {}) else userRooms st);
               ur' = (case ur (user_id u) of
                        None \<Rightarrow> ur
                      | Some s \<Rightarrow> ur(user_id u \<mapsto> insert whiteboardId s))
           in (st\<lparr>userRooms := ur', rooms := rs\<rparr>,
               [client_emit sid (JoinedWhiteboard whiteboardId),
                client_to_emit rs sid (roomName whiteboardId)
                  (UserJoined (user_id u) (email u) whiteboardId)]))
      | Inl err \<Rightarrow>
          (st, [client_emit sid
                  (JoinError whiteboardId
                     (if message err = [] then ''Failed to join whiteboard'' else message err))]))"

text \<open>
  \<open>handleDrawUpdate\<close>: when the user's set is missing or lacks the id, the join handler is
  called (it returns normally also when it refused the join); then the update is emitted to
  the room, the sender excluded. \<open>now\<close> is the server clock's timestamp. Nothing in the
  \<open>try\<close> block throws here (the join handler catches its own exception, emitting to a
  room is total), so the \<open>catch\<close> branch with \<open>draw_update_error\<close> is not reached.
\<close>

definition handleDrawUpdate ::
  "database \<Rightarrow> gateway \<Rightarrow> string \<Rightarrow> user \<Rightarrow> string \<Rightarrow> string \<Rightarrow> string option \<Rightarrow> string
     \<Rightarrow> gateway \<times> delivery list" where
  "handleDrawUpdate db st sid u whiteboardId updateType data now =
     (let (st1, out1) =
            (if (case userRooms st (user_id u) of None \<Rightarrow> True | Some s \<Rightarrow> whiteboardId \<notin> s)
             then handleJoinWhiteboard db st sid u whiteboardId
             else (st, []))
      in (st1, out1 @
            [client_to_emit (rooms st1) sid (roomName whiteboardId)
               (DrawUpdate whiteboardId updateType data (user_id u) now)]))"

text \<open>
  \<open>handleLeaveWhiteboard\<close>: leave the room, delete the id from the user's set when the user
  has one, tell the room \<open>user_left\<close> and the client \<open>left_whiteboard\<close>.
\<close>

definition handleLeaveWhiteboard ::
  "gateway \<Rightarrow> string \<Rightarrow> user \<Rightarrow> string \<Rightarrow> gateway \<times> delivery list" where
  "handleLeaveWhiteboard st sid u whiteboardId =
     (let rs = client_leave sid (roomName whiteboardId) (rooms st);
          ur = (case userRooms st (user_id u) of
                  None \<Rightarrow> userRooms st
                | Some s \<Rightarrow> (userRooms st)(user_id u \<mapsto> s - {whiteboardId}))
      in (st\<lparr>userRooms := ur, rooms := rs\<rparr>,
          [client_to_emit rs sid (roomName whiteboardId)
             (UserLeft (user_id u) (email u) whiteboardId),
           client_emit sid (LeftWhiteboard whiteboardId)]))"

text \<open>
  \<open>handleDisconnect\<close>: without an attached user nothing happens. Otherwise the handler calls
  \<open>client.leave(roomId)\<close> for each element \<open>roomId\<close> of the user's set (the callback passes
  the element itself), and the user's entry is deleted. The result is the new state together
  with the set of room names the handler passed to \<open>client.leave\<close>. The calls of the
  \<open>forEach\<close> commute, so \<open>leave_each\<close> gives their joint effect room by room.
\<close>

definition leave_each :: "string \<Rightarrow> string set \<Rightarrow> (string \<Rightarrow> string set) \<Rightarrow> (string \<Rightarrow> string set)" where
  "leave_each sid roomIds rs = (\<lambda>r. if r \<in> roomIds then rs r - {sid} else rs r)"

definition handleDisconnect :: "gateway \<Rightarrow> socket \<Rightarrow> gateway \<times> string set" where
  "handleDisconnect st client =
     (case data_user client of
        None \<Rightarrow> (st, {})
      | Some u \<Rightarrow>
          if user_id u = [] then (st, {})
          else (case userRooms st (user_id u) of
                  None \<Rightarrow> (st, {})
                | Some userRoomSet \<Rightarrow>
                    (st\<lparr>rooms := leave_each (socket_id client) userRoomSet (rooms st),
                        userRooms := (userRooms st)(user_id u := None)\<rparr>,
                     userRoomSet)))"

text \<open>
  The socket library closes a socket by removing it from every room and only then runs the
  disconnect hook; \<open>socket_closed\<close> is the state the hook starts from.
\<close>

definition socket_closed :: "string \<Rightarrow> gateway \<Rightarrow> gateway" where
  "socket_closed sid st = st\<lparr>rooms := (\<lambda>room. rooms st room - {sid})\<rparr>"

section \<open>Authentication of a connection\<close>

text \<open>
  The regular expression \<open>/token=([^;]+)/\<close> on the cookie header: the leftmost position
  where \<open>token=\<close> is followed by at least one character other than \<open>;\<close>; the group is the
  longest run of such characters.
\<close>

fun cookieTokenMatch :: "string \<Rightarrow> string option" where
  "cookieTokenMatch [] = None"
| "cookieTokenMatch (c # cs) =
     (let v = takeWhile (\<lambda>x. x \<noteq> CHR '';'') (drop 6 (c # cs))
      in if take 6 (c # cs) = ''token='' \<and> v \<noteq> [] then Some v else cookieTokenMatch cs)"

text \<open>
  \<open>extractTokenFromHandshake\<close> of the gateway. A string is truthy when it is not empty;
  the query parameter counts only when it is a string.
\<close>

definition extractTokenFromHandshake :: "socket \<Rightarrow> string option" where
  "extractTokenFromHandshake client =
     (let h = handshake client in
      if (case auth_token h of None \<Rightarrow> False | Some t \<Rightarrow> t \<noteq> []) then auth_token h
      else if (case query_token h of Some (QString q) \<Rightarrow> q \<noteq> [] | _ \<Rightarrow> False)
      then (case query_token h of Some (QString q) \<Rightarrow> Some q | _ \<Rightarrow> None)
      else if (case cookie h of None \<Rightarrow> False | Some cookies \<Rightarrow>
                 cookies \<noteq> [] \<and> cookieTokenMatch cookies \<noteq> None)
      then (case cookie h of None \<Rightarrow> None | Some cookies \<Rightarrow> cookieTokenMatch cookies)
      else (case authorization h of
              None \<Rightarrow> None
            | Some authHeader \<Rightarrow>
                if authHeader \<noteq> [] \<and> take 7 authHeader = ''Bearer ''
                then Some (drop 7 authHeader) else None))"

text \<open>The guard's own copy of the extraction, written as the guard has it.\<close>

definition guard_extractTokenFromHandshake :: "socket \<Rightarrow> string option" where
  "guard_extractTokenFromHandshake client =
     (case (case auth_token (handshake client) of
              None \<Rightarrow> None | Some t \<Rightarrow> if t \<noteq> [] then Some t else None) of
        Some t \<Rightarrow> Some t
      | None \<Rightarrow>
         (case (case query_token (handshake client) of
                  Some (QString q) \<Rightarrow> if q \<noteq> [] then Some q else None | _ \<Rightarrow> None) of
            Some q \<Rightarrow> Some q
          | None \<Rightarrow>
             (case (case cookie (handshake client) of
                      None \<Rightarrow> None
                    | Some cookies \<Rightarrow> if cookies \<noteq> [] then cookieTokenMatch cookies else None) of
                Some v \<Rightarrow> Some v
              | None \<Rightarrow>
                 (case authorization (handshake client) of
                    None \<Rightarrow> None
                  | Some authHeader \<Rightarrow>
                      if authHeader \<noteq> [] \<and> take 7 authHeader = ''Bearer ''
                      then Some (drop 7 authHeader) else None))))"

text \<open>
  \<open>authenticateClient\<close>. The token service and the user store are outside the gateway and
  are parameters: \<open>verifyAsync\<close> gives the subject of a valid token (\<open>None\<close> when it throws),
  \<open>findById\<close> the user of an id. An empty token is falsy and counts as no token.
\<close>

definition authenticateClient ::
  "(string \<Rightarrow> string option) \<Rightarrow> (string \<Rightarrow> user option) \<Rightarrow> socket \<Rightarrow> user option" where
  "authenticateClient verifyAsync findById client =
     (case extractTokenFromHandshake client of
        None \<Rightarrow> None
      | Some token \<Rightarrow>
          if token = [] then None
          else (case verifyAsync token of
                  None \<Rightarrow> None
                | Some sub \<Rightarrow> findById sub))"

text \<open>
  \<open>handleConnection\<close> returns the state, the client with its data, and whether the
  connection is kept (\<open>False\<close>: \<open>client.disconnect()\<close> was called).
\<close>

definition init_user_rooms :: "gateway \<Rightarrow> user \<Rightarrow> gateway" where
  "init_user_rooms st u =
     (if userRooms st (user_id u) = None
      then st\<lparr>userRooms := (userRooms st)(user_id u \<mapsto> {})\<rparr> else st)"

definition handleConnection ::
  "(string \<Rightarrow> string option) \<Rightarrow> (string \<Rightarrow> user option) \<Rightarrow> gateway \<Rightarrow> socket
     \<Rightarrow> gateway \<times> socket \<times> bool" where
  "handleConnection verifyAsync findById st client =
     (if (case data_user client of None \<Rightarrow> True | Some u \<Rightarrow> user_id u = [])
      then (case authenticateClient verifyAsync findById client of
              None \<Rightarrow> (st, client, False)
            | Some u \<Rightarrow>
                (init_user_rooms st u,
                 client\<lparr>data_user := Some u, data_userId := Some (user_id u)\<rparr>, True))
      else (case data_user client of
              None \<Rightarrow> (st, client, False)
            | Some u \<Rightarrow> (init_user_rooms st u, client, True)))"

section \<open>Sequences of join and leave requests\<close>

datatype request = Join string | Leave string

fun handle_request :: "database \<Rightarrow> user \<Rightarrow> gateway \<Rightarrow> string \<times> request \<Rightarrow> gateway" where
  "handle_request db u st (sid, Join w) = fst (handleJoinWhiteboard db st sid u w)"
| "handle_request db u st (sid, Leave w) = fst (handleLeaveWhiteboard st sid u w)"

fun run_requests :: "database \<Rightarrow> user \<Rightarrow> gateway \<Rightarrow> (string \<times> request) list \<Rightarrow> gateway" where
  "run_requests db u st [] = st"
| "run_requests db u st (r # rs) = run_requests db u (handle_request db u st r) rs"

text \<open>
  The replay the specification speaks of: the boards joined at some point of the sequence
  and not left afterwards.
\<close>

fun joined_not_left :: "request list \<Rightarrow> string set" where
  "joined_not_left [] = {}"
| "joined_not_left (Join w # rs) =
     (if Leave w \<in> set rs then joined_not_left rs else insert w (joined_not_left rs))"
| "joined_not_left (Leave w # rs) = joined_not_left rs"

section \<open>Presence of a credential source\<close>

text \<open>
  A source of the handshake is absent when the test the extraction makes on it fails.
\<close>

definition no_auth_token :: "handshake_data \<Rightarrow> bool" where
  "no_auth_token h = (case auth_token h of None \<Rightarrow> True | Some t \<Rightarrow> t = [])"

definition no_query_token :: "handshake_data \<Rightarrow> bool" where
  "no_query_token h = (case query_token h of Some (QString q) \<Rightarrow> q = [] | _ \<Rightarrow> True)"

definition no_cookie_token :: "handshake_data \<Rightarrow> bool" where
  "no_cookie_token h = (case cookie h of None \<Rightarrow> True | Some cookies \<Rightarrow> cookieTokenMatch cookies = None)"

definition no_bearer_token :: "handshake_data \<Rightarrow> bool" where
  "no_bearer_token h = (case authorization h of None \<Rightarrow> True | Some a \<Rightarrow> take 7 a \<noteq> ''Bearer '')"


section \<open>A concrete scenario\<close>

text \<open>
  Concrete data for evaluating the handlers: Alice owns two boards, Carol is a collaborator
  on the first, Bob has no access to either. The gateway starts with an empty table and
  empty rooms.
\<close>

definition alice :: user where
  "alice = \<lparr>user_id = ''a3f1c2d4-58b6-4e7a-9c0d-1e2f3a4b5c6d'', email = ''alice@example.com''\<rparr>"

definition bob :: user where
  "bob = \<lparr>user_id = ''b7e2d3c5-69a7-4f8b-8d1e-2f3a4b5c6d7e'', email = ''bob@example.com''\<rparr>"

definition carol :: user where
  "carol = \<lparr>user_id = ''c8d3e4f6-7ab8-4a9c-9e2f-3a4b5c6d7e8f'', email = ''carol@example.com''\<rparr>"

definition board1 :: string where
  "board1 = ''1b2d6c1e-5f0a-4c3b-8e7d-2a1f4b6c8d90''"

definition board2 :: string where
  "board2 = ''2c3e7d2f-6a1b-4d4c-9f8e-3b2a5c7d9e01''"

definition board3 :: string where
  "board3 = ''3d4f8e3a-7b2c-4e5d-8a9f-4c3b6d8e0f12''"

definition sample_db :: database where
  "sample_db =
     \<lparr>whiteboardRepository =
        [\<lparr>whiteboard_id = board1, owner = alice\<rparr>, \<lparr>whiteboard_id = board2, owner = alice\<rparr>],
      collaboratorRows = [(board1, user_id carol)]\<rparr>"

definition empty_gateway :: gateway where
  "empty_gateway = \<lparr>userRooms = Map.empty, rooms = (\<lambda>room. {})\<rparr>"

definition alice_joined :: gateway where
  "alice_joined = fst (handleJoinWhiteboard sample_db empty_gateway ''sock-alice'' alice board1)"

definition alice_closing :: gateway where
  "alice_closing = socket_closed ''sock-alice'' alice_joined"

definition no_handshake :: handshake_data where
  "no_handshake = \<lparr>auth_token = None, query_token = None, cookie = None, authorization = None\<rparr>"

definition alice_socket :: socket where
  "alice_socket =
     \<lparr>socket_id = ''sock-alice'', data_user = Some alice, data_userId = Some (user_id alice),
      handshake = no_handshake\<rparr>"

definition anonymous_socket :: "handshake_data \<Rightarrow> socket" where
  "anonymous_socket h = \<lparr>socket_id = ''sock-new'', data_user = None, data_userId = None, handshake = h\<rparr>"

definition sample_verifyAsync :: "string \<Rightarrow> string option" where
  "sample_verifyAsync token = (if token = ''alice.jwt'' then Some (user_id alice) else None)"

definition sample_findById :: "string \<Rightarrow> user option" where
  "sample_findById userId = (if userId = user_id alice then Some alice else None)"

section \<open>What each handler computes\<close>

lemma mem_iff: "w \<in> membership st uid \<longleftrightarrow> (\<exists>s. userRooms st uid = Some s \<and> w \<in> s)"
  by (simp add: membership_def split: option.splits)

lemma join_allowed:
  assumes "findByIdWithAccess db w u = Inr wb"
  shows "handleJoinWhiteboard db st sid u w =
     (st\<lparr>userRooms := (userRooms st)(user_id u \<mapsto> insert w (membership st (user_id u))),
         rooms := (rooms st)(roomName w := insert sid (rooms st (roomName w)))\<rparr>,
      [({sid}, JoinedWhiteboard w),
       (rooms st (roomName w) - {sid}, UserJoined (user_id u) (email u) w)])"
  using assms
  by (simp add: handleJoinWhiteboard_def membership_def client_join_def client_emit_def
      client_to_emit_def Let_def split: option.splits)

lemma join_denied:
  assumes "findByIdWithAccess db w u = Inl err"
  shows "handleJoinWhiteboard db st sid u w =
     (st, [({sid}, JoinError w (if message err = [] then ''Failed to join whiteboard'' else message err))])"
  using assms by (simp add: handleJoinWhiteboard_def client_emit_def)

lemma leave_result:
  "handleLeaveWhiteboard st sid u w =
     (st\<lparr>userRooms := (case userRooms st (user_id u) of None \<Rightarrow> userRooms st
                          | Some s \<Rightarrow> (userRooms st)(user_id u \<mapsto> s - {w})),
         rooms := (rooms st)(roomName w := rooms st (roomName w) - {sid})\<rparr>,
      [(rooms st (roomName w) - {sid}, UserLeft (user_id u) (email u) w),
       ({sid}, LeftWhiteboard w)])"
  by (simp add: handleLeaveWhiteboard_def client_leave_def client_emit_def client_to_emit_def Let_def)

lemma draw_member:
  assumes "w \<in> membership st (user_id u)"
  shows "handleDrawUpdate db st sid u w t d now =
     (st, [(rooms st (roomName w) - {sid}, DrawUpdate w t d (user_id u) now)])"
  using assms by (auto simp: handleDrawUpdate_def mem_iff client_to_emit_def)

lemma draw_join_allowed:
  assumes "w \<notin> membership st (user_id u)" and "findByIdWithAccess db w u = Inr wb"
  shows "handleDrawUpdate db st sid u w t d now =
     (st\<lparr>userRooms := (userRooms st)(user_id u \<mapsto> insert w (membership st (user_id u))),
         rooms := (rooms st)(roomName w := insert sid (rooms st (roomName w)))\<rparr>,
      [({sid}, JoinedWhiteboard w),
       (rooms st (roomName w) - {sid}, UserJoined (user_id u) (email u) w),
       (rooms st (roomName w) - {sid}, DrawUpdate w t d (user_id u) now)])"
proof -
  have c: "(case userRooms st (user_id u) of None \<Rightarrow> True | Some s \<Rightarrow> w \<notin> s)"
    using assms(1) by (simp add: membership_def split: option.splits)
  show ?thesis
    unfolding handleDrawUpdate_def using c
    by (simp add: join_allowed[OF assms(2)] client_to_emit_def)
qed

lemma draw_join_denied:
  assumes "w \<notin> membership st (user_id u)" and "findByIdWithAccess db w u = Inl err"
  shows "handleDrawUpdate db st sid u w t d now =
     (st, [({sid}, JoinError w (if message err = [] then ''Failed to join whiteboard'' else message err)),
           (rooms st (roomName w) - {sid}, DrawUpdate w t d (user_id u) now)])"
proof -
  have c: "(case userRooms st (user_id u) of None \<Rightarrow> True | Some s \<Rightarrow> w \<notin> s)"
    using assms(1) by (simp add: membership_def split: option.splits)
  show ?thesis
    unfolding handleDrawUpdate_def using c
    by (simp add: join_denied[OF assms(2)] client_to_emit_def)
qed

lemma leave_table_noop:
  "w \<notin> membership st uid \<Longrightarrow>
   (case userRooms st uid of None \<Rightarrow> userRooms st | Some s \<Rightarrow> (userRooms st)(uid \<mapsto> s - {w})) = userRooms st"
  by (cases "userRooms st uid") (auto simp: membership_def)

lemma leave_membership:
  "membership (st\<lparr>userRooms := (case userRooms st uid of None \<Rightarrow> userRooms st
                          | Some s \<Rightarrow> (userRooms st)(uid \<mapsto> s - {w})), rooms := rs\<rparr>) uid
   = membership st uid - {w}"
  by (cases "userRooms st uid") (simp_all add: membership_def)


lemma membership_join_ok:
  "findByIdWithAccess db w u = Inr wb \<Longrightarrow>
   membership (fst (handleJoinWhiteboard db st sid u w)) (user_id u) = insert w (membership st (user_id u))"
  by (simp add: handleJoinWhiteboard_def membership_def Let_def split: option.splits)

lemma membership_leave:
  "membership (fst (handleLeaveWhiteboard st sid u w)) (user_id u) = membership st (user_id u) - {w}"
  by (simp add: handleLeaveWhiteboard_def membership_def Let_def split: option.splits)


lemma run_requests_membership:
  "(\<And>w. Join w \<in> snd ` set reqs \<Longrightarrow> \<exists>wb. findByIdWithAccess db w u = Inr wb) \<Longrightarrow>
   membership (run_requests db u st reqs) (user_id u) =
     joined_not_left (map snd reqs) \<union> {w \<in> membership st (user_id u). Leave w \<notin> snd ` set reqs}"
proof (induction reqs arbitrary: st)
  case Nil
  then show ?case by simp
next
  case (Cons r reqs)
  obtain sid q where r: "r = (sid, q)" by (cases r)
  have ih: "membership (run_requests db u st' reqs) (user_id u) =
     joined_not_left (map snd reqs) \<union> {w \<in> membership st' (user_id u). Leave w \<notin> snd ` set reqs}" for st'
    using Cons.IH Cons.prems by auto
  show ?case
  proof (cases q)
    case (Join w)
    then obtain wb where "findByIdWithAccess db w u = Inr wb"
      using Cons.prems[of w] r by force
    then show ?thesis
      using ih r Join by (auto simp: membership_join_ok)
  next
    case (Leave w)
    then show ?thesis
      using ih r by (auto simp: membership_leave)
  qed
qed

lemma run_requests_append:
  "run_requests db u st (xs @ ys) = run_requests db u (run_requests db u st xs) ys"
  by (induction xs arbitrary: st) simp_all

lemma joined_not_left_iff:
  "w \<in> joined_not_left rs \<longleftrightarrow> (\<exists>pre post. rs = pre @ Join w # post \<and> Leave w \<notin> set post)"
proof (induction rs rule: joined_not_left.induct)
  case 1
  then show ?case by simp
next
  case (2 v rs)
  have "(\<exists>pre post. Join v # rs = pre @ Join w # post \<and> Leave w \<notin> set post) \<longleftrightarrow>
        (v = w \<and> Leave w \<notin> set rs) \<or> (\<exists>pre post. rs = pre @ Join w # post \<and> Leave w \<notin> set post)"
    by (auto simp: Cons_eq_append_conv)
  with 2 show ?case by auto
next
  case (3 v rs)
  have "(\<exists>pre post. Leave v # rs = pre @ Join w # post \<and> Leave w \<notin> set post) \<longleftrightarrow>
        (\<exists>pre post. rs = pre @ Join w # post \<and> Leave w \<notin> set post)"
    by (auto simp: Cons_eq_append_conv)
  with 3 show ?case by auto
qed

lemma cookieTokenMatch_Some:
  "cookieTokenMatch ck = Some v \<Longrightarrow>
     v \<noteq> [] \<and> CHR '';'' \<notin> set v \<and>
     (\<exists>pre post. ck = pre @ ''token='' @ v @ post \<and> (post = [] \<or> hd post = CHR '';''))"
proof (induction ck)
  case Nil
  then show ?case by simp
next
  case (Cons c cs)
  let ?d = "drop 6 (c # cs)"
  let ?v = "takeWhile (\<lambda>x. x \<noteq> CHR '';'') ?d"
  show ?case
  proof (cases "take 6 (c # cs) = ''token='' \<and> ?v \<noteq> []")
    case True
    define post where "post = dropWhile (\<lambda>x. x \<noteq> CHR '';'') ?d"
    from True have v: "v = ?v" using Cons.prems by (simp add: Let_def)
    from True v have vne: "v \<noteq> []" by simp
    have vsc: "CHR '';'' \<notin> set v"
      unfolding v using set_takeWhileD by fastforce
    from True have s1: "c # cs = ''token='' @ ?d"
      by (metis append_take_drop_id)
    have s2: "?d = v @ post"
      unfolding v post_def by (simp only: takeWhile_dropWhile_id)
    from s1 s2 have split: "c # cs = [] @ ''token='' @ v @ post"
      by (metis append_Nil)
    have "post = [] \<or> hd post = CHR '';''"
      unfolding post_def using hd_dropWhile[of "\<lambda>x. x \<noteq> CHR '';''" ?d] by blast
    with split have "c # cs = [] @ ''token='' @ v @ post \<and> (post = [] \<or> hd post = CHR '';'')"
      by (rule conjI)
    then have "\<exists>pre post. c # cs = pre @ ''token='' @ v @ post \<and> (post = [] \<or> hd post = CHR '';'')"
      by - (rule exI[of _ "[]"], rule exI[of _ post], assumption)
    with vne vsc show ?thesis by (intro conjI)
  next
    case False
    then have "cookieTokenMatch cs = Some v"
      using Cons.prems by (auto simp: Let_def split: if_splits)
    from Cons.IH[OF this] obtain pre post where vne: "v \<noteq> []" and vsc: "CHR '';'' \<notin> set v"
      and cs: "cs = pre @ ''token='' @ v @ post" and p: "post = [] \<or> hd post = CHR '';''"
      by blast
    from cs have "c # cs = (c # pre) @ ''token='' @ v @ post"
      by (simp only: append_Cons)
    with p have "c # cs = (c # pre) @ ''token='' @ v @ post \<and> (post = [] \<or> hd post = CHR '';'')"
      by - (rule conjI)
    then have "\<exists>pre post. c # cs = pre @ ''token='' @ v @ post \<and> (post = [] \<or> hd post = CHR '';'')"
      by - (rule exI[of _ "c # pre"], rule exI[of _ post], assumption)
    with vne vsc show ?thesis by (intro conjI)
  qed
qed

lemma guard_extract_eq: "guard_extractTokenFromHandshake client = extractTokenFromHandshake client"
  by (simp add: guard_extractTokenFromHandshake_def extractTokenFromHandshake_def Let_def
      split: option.splits query_value.splits)


lemma connection_frame:
  "userRooms st v = Some s \<Longrightarrow> userRooms (fst (handleConnection verifyAsync findById st client)) v = Some s"
  by (auto simp: handleConnection_def init_user_rooms_def split: option.splits if_splits)

lemma roomName_not_id: "roomName w \<noteq> w"
proof
  assume "roomName w = w"
  then have "length (roomName w) = length w" by simp
  then show False by (simp add: roomName_def)
qed

lemma handleDisconnect_result:
  assumes "data_user client = Some u" and "user_id u \<noteq> []"
    and "userRooms st (user_id u) = Some userRoomSet"
  shows "handleDisconnect st client =
     (st\<lparr>rooms := leave_each (socket_id client) userRoomSet (rooms st),
         userRooms := (userRooms st)(user_id u := None)\<rparr>,
      userRoomSet)"
  using assms by (simp add: handleDisconnect_def)

lemma handleDisconnect_leave_calls:
  assumes "data_user client = Some u" and "user_id u \<noteq> []"
  shows "snd (handleDisconnect st client) = membership st (user_id u)"
  using assms by (simp add: handleDisconnect_def membership_def split: option.splits)

lemma handleDisconnect_entry_deleted:
  assumes "data_user client = Some u" and "user_id u \<noteq> []"
  shows "userRooms (fst (handleDisconnect st client)) (user_id u) = None"
  using assms by (simp add: handleDisconnect_def split: option.splits)

lemma handleDisconnect_rooms_subset:
  "rooms (fst (handleDisconnect st client)) room \<subseteq> rooms st room"
  by (auto simp: handleDisconnect_def leave_each_def split: option.splits if_splits)

lemma socket_closed_rooms: "sid \<notin> rooms (socket_closed sid st) room"
  by (simp add: socket_closed_def)

lemma socket_closed_userRooms: "userRooms (socket_closed sid st) = userRooms st"
  by (simp add: socket_closed_def)

section \<open>Facts about the scenario\<close>

lemma alice_joined_userRooms: "userRooms alice_joined = [user_id alice \<mapsto> {board1}]"
  by (simp add: alice_joined_def handleJoinWhiteboard_def findByIdWithAccess_def findOne_def
      hasAccess_def sample_db_def empty_gateway_def Let_def)

lemma alice_joined_rooms: "rooms alice_joined = (\<lambda>room. {})(roomName board1 := {''sock-alice''})"
  by (simp add: alice_joined_def handleJoinWhiteboard_def findByIdWithAccess_def findOne_def
      hasAccess_def sample_db_def empty_gateway_def client_join_def Let_def)

lemma access_alice_board1:
  "findByIdWithAccess sample_db board1 alice = Inr \<lparr>whiteboard_id = board1, owner = alice\<rparr>"
  by (simp add: findByIdWithAccess_def findOne_def hasAccess_def sample_db_def)

lemma access_alice_board2:
  "findByIdWithAccess sample_db board2 alice = Inr \<lparr>whiteboard_id = board2, owner = alice\<rparr>"
  by (simp add: findByIdWithAccess_def findOne_def hasAccess_def sample_db_def board1_def board2_def)

lemma access_carol_board1:
  "findByIdWithAccess sample_db board1 carol = Inr \<lparr>whiteboard_id = board1, owner = alice\<rparr>"
  by (simp add: findByIdWithAccess_def findOne_def hasAccess_def sample_db_def
      findCollaboratorByUserAndWhiteboard_def)

lemma access_bob_board1:
  "findByIdWithAccess sample_db board1 bob =
     Inl (ForbiddenException ''You do not have permission to access this whiteboard'')"
  by (simp add: findByIdWithAccess_def findOne_def hasAccess_def sample_db_def
      findCollaboratorByUserAndWhiteboard_def alice_def bob_def carol_def)

lemma access_alice_board3:
  "findByIdWithAccess sample_db board3 alice = Inl (NotFoundException ''Whiteboard not found'')"
  by (simp add: findByIdWithAccess_def findOne_def sample_db_def board1_def board2_def board3_def)

lemma findOne_board1: "findOne sample_db board1 = Some \<lparr>whiteboard_id = board1, owner = alice\<rparr>"
  by (simp add: findOne_def sample_db_def)

lemma findOne_board3: "findOne sample_db board3 = None"
  by (simp add: findOne_def sample_db_def board1_def board2_def board3_def)

lemma bob_no_access: "\<not> hasAccess sample_db \<lparr>whiteboard_id = board1, owner = alice\<rparr> bob"
  by (simp add: hasAccess_def sample_db_def findCollaboratorByUserAndWhiteboard_def
      alice_def bob_def carol_def)

lemma carol_has_access: "hasAccess sample_db \<lparr>whiteboard_id = board1, owner = alice\<rparr> carol"
  by (simp add: hasAccess_def sample_db_def findCollaboratorByUserAndWhiteboard_def)

lemma distinct_users:
  "user_id alice \<noteq> user_id bob" "user_id alice \<noteq> user_id carol" "user_id bob \<noteq> user_id carol"
  "user_id bob \<noteq> user_id alice" "user_id carol \<noteq> user_id alice" "user_id carol \<noteq> user_id bob"
  by (simp_all add: alice_def bob_def carol_def)

lemma distinct_boards:
  "board1 \<noteq> board2" "board1 \<noteq> board3" "board2 \<noteq> board3"
  "board2 \<noteq> board1" "board3 \<noteq> board1" "board3 \<noteq> board2"
  by (simp_all add: board1_def board2_def board3_def)

lemma roomName_inject: "roomName a = roomName b \<longleftrightarrow> a = b"
  by (simp add: roomName_def)


lemma membership_alice_joined:
  "membership alice_joined (user_id alice) = {board1}"
  "membership alice_joined (user_id bob) = {}"
  "membership alice_joined (user_id carol) = {}"
  by (simp_all add: membership_def alice_joined_userRooms distinct_users)

lemma room_alice_joined: "rooms alice_joined (roomName board1) = {''sock-alice''}"
  by (simp add: alice_joined_rooms)

section \<open>The claims\<close>

text \<open>
  C1. The claim: a draw update is relayed only once the sender's membership is confirmed,
  and never when the board is missing from the sender's set after the implicit join. The
  handlers do not hold it: the join handler answers a refused join itself and returns
  normally, and the draw handler goes on to emit. Evaluated on the scenario: Bob has no
  access to the first board and is not in its set before or after; his update is still
  delivered to Alice, next to the \<open>join_error\<close> he receives.
\<close>

theorem draw_update_relayed_after_refused_join:
  "board1 \<notin> membership alice_joined (user_id bob)
   \<and> handleDrawUpdate sample_db alice_joined ''sock-bob'' bob board1 ''stroke'' None
        ''2026-01-01T00:00:00.000Z'' =
      (alice_joined,
       [({''sock-bob''}, JoinError board1 ''You do not have permission to access this whiteboard''),
        ({''sock-alice''}, DrawUpdate board1 ''stroke'' None (user_id bob) ''2026-01-01T00:00:00.000Z'')])
   \<and> received (snd (handleDrawUpdate sample_db alice_joined ''sock-bob'' bob board1 ''stroke'' None
        ''2026-01-01T00:00:00.000Z'')) ''sock-alice''
      = [DrawUpdate board1 ''stroke'' None (user_id bob) ''2026-01-01T00:00:00.000Z'']"
proof -
  have never: "board1 \<notin> membership alice_joined (user_id bob)"
    by (simp add: membership_alice_joined)
  show ?thesis
    by (simp add: draw_join_denied[OF never access_bob_board1] never room_alice_joined received_def)
qed

text \<open>
  C2. When the access check for a board and a user fails (no such board, or the user is
  neither its owner nor a collaborator), a join request changes neither the membership table
  nor the room registry, nobody receives \<open>user_joined\<close>, and the only delivery is the
  \<open>join_error\<close> sent to the requesting socket.
\<close>

theorem join_denied_no_effect:
  assumes "findOne db w = None \<or> (\<exists>wb. findOne db w = Some wb \<and> \<not> hasAccess db wb u)"
  shows "fst (handleJoinWhiteboard db st sid u w) = st
       \<and> (\<exists>msg. snd (handleJoinWhiteboard db st sid u w) = [({sid}, JoinError w msg)])
       \<and> (\<forall>s. \<not> list_ex is_user_joined (received (snd (handleJoinWhiteboard db st sid u w)) s))
       \<and> (\<forall>s. s \<noteq> sid \<longrightarrow> received (snd (handleJoinWhiteboard db st sid u w)) s = [])"
proof -
  obtain err where "findByIdWithAccess db w u = Inl err"
    using assms by (auto simp: findByIdWithAccess_def split: option.splits)
  then show ?thesis
    by (simp add: join_denied received_def)
qed

theorem join_denied_no_effect_witness:
  "fst (handleJoinWhiteboard sample_db alice_joined ''sock-bob'' bob board1) = alice_joined
   \<and> snd (handleJoinWhiteboard sample_db alice_joined ''sock-bob'' bob board1) =
       [({''sock-bob''}, JoinError board1 ''You do not have permission to access this whiteboard'')]
   \<and> received (snd (handleJoinWhiteboard sample_db alice_joined ''sock-bob'' bob board1)) ''sock-alice'' = []
   \<and> fst (handleJoinWhiteboard sample_db alice_joined ''sock-alice'' alice board3) = alice_joined
   \<and> snd (handleJoinWhiteboard sample_db alice_joined ''sock-alice'' alice board3) =
       [({''sock-alice''}, JoinError board3 ''Whiteboard not found'')]"
proof -
  have forbidden: "findOne sample_db board1 = None \<or>
      (\<exists>wb. findOne sample_db board1 = Some wb \<and> \<not> hasAccess sample_db wb bob)"
    by (simp add: findOne_board1 bob_no_access)
  have missing: "findOne sample_db board3 = None \<or>
      (\<exists>wb. findOne sample_db board3 = Some wb \<and> \<not> hasAccess sample_db wb alice)"
    by (simp add: findOne_board3)
  from join_denied_no_effect[OF forbidden, of alice_joined "''sock-bob''"]
       join_denied_no_effect[OF missing, of alice_joined "''sock-alice''"]
  show ?thesis
    by (simp add: join_denied[OF access_bob_board1] join_denied[OF access_alice_board3])
qed

text \<open>
  C3. The claim: on disconnect the gateway tells the transport to leave, for every board of
  the user's set, the room \<open>whiteboard:<id>\<close> used at join, and then deletes the entry. The
  entry is deleted, but the rooms the handler names in its \<open>client.leave\<close> calls are the
  bare board ids. Evaluated when Alice, who joined the first board, disconnects (her socket
  already removed from every room by the closing transport): the only leave call names the
  board id, the room \<open>whiteboard:<id>\<close> is not among the calls, the entry is gone and no
  registration is left.
\<close>

theorem disconnect_leave_calls_name_bare_board_id:
  "membership alice_closing (user_id alice) = {board1}
   \<and> (\<forall>room. ''sock-alice'' \<notin> rooms alice_closing room)
   \<and> snd (handleDisconnect alice_closing alice_socket) = {board1}
   \<and> roomName board1 \<notin> snd (handleDisconnect alice_closing alice_socket)
   \<and> userRooms (fst (handleDisconnect alice_closing alice_socket)) (user_id alice) = None
   \<and> (\<forall>room. ''sock-alice'' \<notin> rooms (fst (handleDisconnect alice_closing alice_socket)) room)"
proof -
  have ne: "user_id alice \<noteq> []"
    by (simp add: alice_def)
  have du: "data_user alice_socket = Some alice"
    by (simp add: alice_socket_def)
  have mem: "membership alice_closing (user_id alice) = {board1}"
    by (simp add: alice_closing_def membership_def socket_closed_userRooms alice_joined_userRooms)
  have before: "''sock-alice'' \<notin> rooms alice_closing room" for room
    unfolding alice_closing_def by (rule socket_closed_rooms)
  have calls: "snd (handleDisconnect alice_closing alice_socket) = {board1}"
    by (simp add: handleDisconnect_leave_calls[OF du ne] mem)
  have canonical: "roomName board1 \<notin> snd (handleDisconnect alice_closing alice_socket)"
    unfolding calls by (simp add: roomName_not_id)
  have gone: "userRooms (fst (handleDisconnect alice_closing alice_socket)) (user_id alice) = None"
    by (rule handleDisconnect_entry_deleted[OF du ne])
  have after: "''sock-alice'' \<notin> rooms (fst (handleDisconnect alice_closing alice_socket)) room" for room
    using handleDisconnect_rooms_subset[of alice_closing alice_socket room] before[of room] by blast
  from mem before calls canonical gone after show ?thesis
    by (intro conjI allI)
qed

text \<open>
  C4. A user with access to a board whose set does not yet hold it sends a draw update: the
  socket ends up registered in the board's room, the board is in the user's set, and the
  update is delivered to every other socket of the room.
\<close>

theorem draw_before_join_self_heals:
  assumes "findOne db w = Some wb" and "hasAccess db wb u"
    and "w \<notin> membership st (user_id u)"
    and "handleDrawUpdate db st sid u w t d now = (st', out)"
  shows "sid \<in> rooms st' (roomName w)
       \<and> w \<in> membership st' (user_id u)
       \<and> (rooms st' (roomName w) - {sid}, DrawUpdate w t d (user_id u) now) \<in> set out
       \<and> rooms st' (roomName w) - {sid} = rooms st (roomName w) - {sid}
       \<and> (\<forall>s \<in> rooms st (roomName w) - {sid}. DrawUpdate w t d (user_id u) now \<in> set (received out s))"
proof -
  have "findByIdWithAccess db w u = Inr wb"
    using assms(1,2) by (simp add: findByIdWithAccess_def)
  from draw_join_allowed[OF assms(3) this, of sid t d now] assms(4)
  have st': "st' = st\<lparr>userRooms := (userRooms st)(user_id u \<mapsto> insert w (membership st (user_id u))),
         rooms := (rooms st)(roomName w := insert sid (rooms st (roomName w)))\<rparr>"
    and out: "out = [({sid}, JoinedWhiteboard w),
       (rooms st (roomName w) - {sid}, UserJoined (user_id u) (email u) w),
       (rooms st (roomName w) - {sid}, DrawUpdate w t d (user_id u) now)]"
    by simp_all
  show ?thesis
    unfolding st' out by (simp add: membership_def received_def)
qed

theorem draw_before_join_self_heals_witness:
  "board1 \<notin> membership alice_joined (user_id carol)
   \<and> ''sock-carol'' \<in> rooms (fst (handleDrawUpdate sample_db alice_joined ''sock-carol'' carol board1
          ''stroke'' None ''2026-01-01T00:00:00.000Z'')) (roomName board1)
   \<and> board1 \<in> membership (fst (handleDrawUpdate sample_db alice_joined ''sock-carol'' carol board1
          ''stroke'' None ''2026-01-01T00:00:00.000Z'')) (user_id carol)
   \<and> DrawUpdate board1 ''stroke'' None (user_id carol) ''2026-01-01T00:00:00.000Z''
       \<in> set (received (snd (handleDrawUpdate sample_db alice_joined ''sock-carol'' carol board1
          ''stroke'' None ''2026-01-01T00:00:00.000Z'')) ''sock-alice'')"
proof -
  have fresh: "board1 \<notin> membership alice_joined (user_id carol)"
    by (simp add: membership_alice_joined)
  obtain st' out where run: "handleDrawUpdate sample_db alice_joined ''sock-carol'' carol board1
          ''stroke'' None ''2026-01-01T00:00:00.000Z'' = (st', out)"
    by (cases "handleDrawUpdate sample_db alice_joined ''sock-carol'' carol board1
          ''stroke'' None ''2026-01-01T00:00:00.000Z''")
  from draw_before_join_self_heals[OF findOne_board1 carol_has_access fresh run] fresh
  show ?thesis
    unfolding run by (simp add: room_alice_joined)
qed

text \<open>
  C5. A draw update is received only by sockets of the room other than the sender, each of
  them exactly once, and never by the sender. When the room holds no socket but the sender,
  nobody receives it. The handler never emits \<open>draw_update_error\<close>, and a sender who is a
  member (or whose implicit join is allowed) receives no error event; a member alone in the
  room causes no delivery at all.
\<close>

theorem draw_update_never_echoed:
  assumes "handleDrawUpdate db st sid u w t d now = (st', out)"
  shows "(\<forall>s. list_ex is_draw_update (received out s) \<longrightarrow> s \<noteq> sid \<and> s \<in> rooms st' (roomName w))
       \<and> (\<forall>s \<in> rooms st' (roomName w) - {sid}.
             filter is_draw_update (received out s) = [DrawUpdate w t d (user_id u) now])
       \<and> (rooms st' (roomName w) \<subseteq> {sid} \<longrightarrow> (\<forall>s. \<not> list_ex is_draw_update (received out s)))
       \<and> \<not> list_ex is_draw_update (received out sid)
       \<and> (\<forall>m. DrawUpdateError w m \<notin> set (map snd out))
       \<and> (w \<in> membership st (user_id u) \<or> (\<exists>wb. findByIdWithAccess db w u = Inr wb) \<longrightarrow>
             \<not> list_ex is_error (received out sid))
       \<and> (w \<in> membership st (user_id u) \<and> rooms st (roomName w) \<subseteq> {sid} \<longrightarrow>
             st' = st \<and> (\<forall>s. received out s = []))"
proof (cases "w \<in> membership st (user_id u)")
  case True
  from draw_member[OF True, of db sid t d now] assms
  have st': "st' = st"
    and out: "out = [(rooms st (roomName w) - {sid}, DrawUpdate w t d (user_id u) now)]"
    by simp_all
  show ?thesis
    unfolding st' out using True by (auto simp: received_def)
next
  case False
  show ?thesis
  proof (cases "findByIdWithAccess db w u")
    case (Inl err)
    from draw_join_denied[OF False Inl, of sid t d now] assms
    have st': "st' = st"
      and out: "out = [({sid}, JoinError w (if message err = [] then ''Failed to join whiteboard'' else message err)),
           (rooms st (roomName w) - {sid}, DrawUpdate w t d (user_id u) now)]"
      by simp_all
    show ?thesis
      unfolding st' out using False Inl by (auto simp: received_def)
  next
    case (Inr wb)
    from draw_join_allowed[OF False Inr, of sid t d now] assms
    have st': "st' = st\<lparr>userRooms := (userRooms st)(user_id u \<mapsto> insert w (membership st (user_id u))),
         rooms := (rooms st)(roomName w := insert sid (rooms st (roomName w)))\<rparr>"
      and out: "out = [({sid}, JoinedWhiteboard w),
       (rooms st (roomName w) - {sid}, UserJoined (user_id u) (email u) w),
       (rooms st (roomName w) - {sid}, DrawUpdate w t d (user_id u) now)]"
      by simp_all
    show ?thesis
      unfolding st' out using False by (auto simp: received_def)
  qed
qed

theorem draw_update_never_echoed_witness:
  "handleDrawUpdate sample_db alice_joined ''sock-alice'' alice board1
          ''stroke'' None ''2026-01-01T00:00:00.000Z'' =
      (alice_joined, [({}, DrawUpdate board1 ''stroke'' None (user_id alice) ''2026-01-01T00:00:00.000Z'')])
   \<and> received (snd (handleDrawUpdate sample_db alice_joined ''sock-alice'' alice board1
          ''stroke'' None ''2026-01-01T00:00:00.000Z'')) ''sock-alice'' = []
   \<and> filter is_draw_update (received (snd (handleDrawUpdate sample_db alice_joined ''sock-carol'' carol board1
          ''rectangle'' None ''2026-01-01T00:00:00.000Z'')) ''sock-alice'')
        = [DrawUpdate board1 ''rectangle'' None (user_id carol) ''2026-01-01T00:00:00.000Z'']
   \<and> \<not> list_ex is_draw_update (received (snd (handleDrawUpdate sample_db alice_joined ''sock-carol'' carol board1
          ''rectangle'' None ''2026-01-01T00:00:00.000Z'')) ''sock-carol'')
   \<and> \<not> list_ex is_error (received (snd (handleDrawUpdate sample_db alice_joined ''sock-carol'' carol board1
          ''rectangle'' None ''2026-01-01T00:00:00.000Z'')) ''sock-carol'')"
proof -
  have sole: "handleDrawUpdate sample_db alice_joined ''sock-alice'' alice board1
          ''stroke'' None ''2026-01-01T00:00:00.000Z'' =
      (alice_joined, [({}, DrawUpdate board1 ''stroke'' None (user_id alice) ''2026-01-01T00:00:00.000Z'')])"
    by (simp add: draw_member membership_alice_joined room_alice_joined)
  obtain st' out where run: "handleDrawUpdate sample_db alice_joined ''sock-carol'' carol board1
          ''rectangle'' None ''2026-01-01T00:00:00.000Z'' = (st', out)"
    by (cases "handleDrawUpdate sample_db alice_joined ''sock-carol'' carol board1
          ''rectangle'' None ''2026-01-01T00:00:00.000Z''")
  have st': "st' = fst (handleDrawUpdate sample_db alice_joined ''sock-carol'' carol board1
          ''rectangle'' None ''2026-01-01T00:00:00.000Z'')"
    by (simp add: run)
  have room': "rooms st' (roomName board1) = {''sock-alice'', ''sock-carol''}"
    unfolding st'
    by (auto simp: draw_join_allowed[OF _ access_carol_board1] membership_alice_joined room_alice_joined)
  have ok: "\<exists>wb. findByIdWithAccess sample_db board1 carol = Inr wb"
    by (simp add: access_carol_board1)
  from draw_update_never_echoed[OF sole] draw_update_never_echoed[OF run] ok
  show ?thesis
    unfolding run by (simp add: room' sole received_def)
qed

text \<open>
  C6. For a sequence of join and leave requests of one user, from any of the user's sockets,
  with every joined board accessible: the final membership set is the replay of the
  sequence on the initial set. Starting from the empty set it is exactly the set of boards
  joined at some point and not left afterwards, and a leave at the end always removes its
  board.
\<close>

theorem join_leave_replay:
  assumes "\<forall>w. Join w \<in> snd ` set reqs \<longrightarrow> (\<exists>wb. findByIdWithAccess db w u = Inr wb)"
  shows "membership (run_requests db u st reqs) (user_id u) =
           joined_not_left (map snd reqs)
             \<union> {w \<in> membership st (user_id u). Leave w \<notin> snd ` set reqs}
       \<and> (membership st (user_id u) = {} \<longrightarrow>
             membership (run_requests db u st reqs) (user_id u) =
               {w. \<exists>pre post. map snd reqs = pre @ Join w # post \<and> Leave w \<notin> set post})
       \<and> (\<forall>sid w. w \<notin> membership (run_requests db u st (reqs @ [(sid, Leave w)])) (user_id u))"
proof -
  have acc: "\<And>w. Join w \<in> snd ` set reqs \<Longrightarrow> \<exists>wb. findByIdWithAccess db w u = Inr wb"
    using assms by blast
  have main: "membership (run_requests db u st reqs) (user_id u) =
           joined_not_left (map snd reqs)
             \<union> {w \<in> membership st (user_id u). Leave w \<notin> snd ` set reqs}"
    by (rule run_requests_membership[OF acc])
  have fresh: "membership st (user_id u) = {} \<longrightarrow>
             membership (run_requests db u st reqs) (user_id u) =
               {w. \<exists>pre post. map snd reqs = pre @ Join w # post \<and> Leave w \<notin> set post}"
  proof
    assume "membership st (user_id u) = {}"
    then have "membership (run_requests db u st reqs) (user_id u) = joined_not_left (map snd reqs)"
      unfolding main by simp
    also have "\<dots> = {w. \<exists>pre post. map snd reqs = pre @ Join w # post \<and> Leave w \<notin> set post}"
      by (rule set_eqI) (simp add: joined_not_left_iff)
    finally show "membership (run_requests db u st reqs) (user_id u) =
               {w. \<exists>pre post. map snd reqs = pre @ Join w # post \<and> Leave w \<notin> set post}" .
  qed
  have last: "w \<notin> membership (run_requests db u st (reqs @ [(sid, Leave w)])) (user_id u)" for sid w
    by (simp add: run_requests_append membership_leave)
  from main fresh last show ?thesis by (intro conjI allI)
qed

theorem join_leave_replay_witness:
  "membership (run_requests sample_db alice empty_gateway
       [(''sock-alice'', Join board1), (''sock-alice'', Join board2), (''sock-alice'', Leave board1),
        (''sock-alice'', Leave board3), (''sock-alice'', Join board1), (''sock-alice'', Leave board2)])
     (user_id alice) = {board1}"
proof -
  let ?reqs = "[(''sock-alice'', Join board1), (''sock-alice'', Join board2), (''sock-alice'', Leave board1),
        (''sock-alice'', Leave board3), (''sock-alice'', Join board1), (''sock-alice'', Leave board2)]"
  have allowed: "\<forall>w. Join w \<in> snd ` set ?reqs \<longrightarrow> (\<exists>wb. findByIdWithAccess sample_db w alice = Inr wb)"
    by (auto simp: access_alice_board1 access_alice_board2)
  have start: "membership empty_gateway (user_id alice) = {}"
    by (simp add: membership_def empty_gateway_def)
  from join_leave_replay[OF allowed, of empty_gateway] start
  show ?thesis
    by (simp add: distinct_boards)
qed

text \<open>
  C7. A leave request removes the socket from the board's room \<open>whiteboard:<id>\<close>, removes
  the board from the user's set, and the sender receives exactly \<open>left_whiteboard\<close>; no
  error event is emitted. When the board was not in the set the table is unchanged and the
  acknowledgement is the same.
\<close>

theorem leave_unregisters_and_acknowledges:
  assumes "handleLeaveWhiteboard st sid u w = (st', out)"
  shows "sid \<notin> rooms st' (roomName w)
       \<and> w \<notin> membership st' (user_id u)
       \<and> membership st' (user_id u) = membership st (user_id u) - {w}
       \<and> received out sid = [LeftWhiteboard w]
       \<and> \<not> list_ex is_error (map snd out)
       \<and> (w \<notin> membership st (user_id u) \<longrightarrow> userRooms st' = userRooms st)"
proof -
  from assms have st': "st' = st\<lparr>userRooms := (case userRooms st (user_id u) of None \<Rightarrow> userRooms st
                          | Some s \<Rightarrow> (userRooms st)(user_id u \<mapsto> s - {w})),
         rooms := (rooms st)(roomName w := rooms st (roomName w) - {sid})\<rparr>"
    and out: "out = [(rooms st (roomName w) - {sid}, UserLeft (user_id u) (email u) w),
       ({sid}, LeftWhiteboard w)]"
    by (simp_all add: leave_result)
  have m: "membership st' (user_id u) = membership st (user_id u) - {w}"
    unfolding st' by (rule leave_membership)
  have r: "sid \<notin> rooms st' (roomName w)"
    unfolding st' by simp
  have o: "received out sid = [LeftWhiteboard w]" "\<not> list_ex is_error (map snd out)"
    unfolding out by (simp_all add: received_def)
  have n: "w \<notin> membership st (user_id u) \<longrightarrow> userRooms st' = userRooms st"
    unfolding st' by (simp add: leave_table_noop)
  from m r o n show ?thesis by simp
qed

theorem leave_unregisters_and_acknowledges_witness:
  "''sock-alice'' \<notin> rooms (fst (handleLeaveWhiteboard alice_joined ''sock-alice'' alice board1)) (roomName board1)
   \<and> membership (fst (handleLeaveWhiteboard alice_joined ''sock-alice'' alice board1)) (user_id alice) = {}
   \<and> received (snd (handleLeaveWhiteboard alice_joined ''sock-alice'' alice board1)) ''sock-alice''
        = [LeftWhiteboard board1]
   \<and> userRooms (fst (handleLeaveWhiteboard alice_joined ''sock-bob'' bob board2)) = userRooms alice_joined
   \<and> received (snd (handleLeaveWhiteboard alice_joined ''sock-bob'' bob board2)) ''sock-bob''
        = [LeftWhiteboard board2]
   \<and> \<not> list_ex is_error (map snd (snd (handleLeaveWhiteboard alice_joined ''sock-bob'' bob board2)))"
proof -
  obtain st1 out1 where r1: "handleLeaveWhiteboard alice_joined ''sock-alice'' alice board1 = (st1, out1)"
    by (cases "handleLeaveWhiteboard alice_joined ''sock-alice'' alice board1")
  obtain st2 out2 where r2: "handleLeaveWhiteboard alice_joined ''sock-bob'' bob board2 = (st2, out2)"
    by (cases "handleLeaveWhiteboard alice_joined ''sock-bob'' bob board2")
  have never: "board2 \<notin> membership alice_joined (user_id bob)"
    by (simp add: membership_alice_joined)
  from leave_unregisters_and_acknowledges[OF r1] leave_unregisters_and_acknowledges[OF r2] never
  show ?thesis
    unfolding r1 r2 by (simp add: membership_alice_joined)
qed

text \<open>
  C8. Token extraction takes the first present source in the order: \<open>auth.token\<close>, the
  query parameter, the cookie pattern, the bearer header; a present source wins whatever
  the later ones hold. With no source present the result is \<open>None\<close>, and a connection
  without an attached user is then disconnected with the state unchanged. The guard's
  extraction computes the same.
\<close>

theorem extractTokenFromHandshake_priority:
  "(\<forall>t. auth_token (handshake client) = Some t \<and> t \<noteq> [] \<longrightarrow>
        extractTokenFromHandshake client = Some t)
 \<and> (\<forall>q. no_auth_token (handshake client) \<and> query_token (handshake client) = Some (QString q) \<and> q \<noteq> [] \<longrightarrow>
        extractTokenFromHandshake client = Some q)
 \<and> (\<forall>cookies v. no_auth_token (handshake client) \<and> no_query_token (handshake client)
        \<and> cookie (handshake client) = Some cookies \<and> cookieTokenMatch cookies = Some v \<longrightarrow>
        extractTokenFromHandshake client = Some v)
 \<and> (\<forall>a. no_auth_token (handshake client) \<and> no_query_token (handshake client)
        \<and> no_cookie_token (handshake client)
        \<and> authorization (handshake client) = Some a \<and> take 7 a = ''Bearer '' \<longrightarrow>
        extractTokenFromHandshake client = Some (drop 7 a))
 \<and> (no_auth_token (handshake client) \<and> no_query_token (handshake client)
        \<and> no_cookie_token (handshake client) \<and> no_bearer_token (handshake client) \<longrightarrow>
        extractTokenFromHandshake client = None
      \<and> ((case data_user client of None \<Rightarrow> True | Some u \<Rightarrow> user_id u = []) \<longrightarrow>
           handleConnection verifyAsync findById st client = (st, client, False)))
 \<and> guard_extractTokenFromHandshake client = extractTokenFromHandshake client"
proof -
  have a: "auth_token (handshake client) = Some t \<and> t \<noteq> [] \<longrightarrow>
        extractTokenFromHandshake client = Some t" for t
    by (simp add: extractTokenFromHandshake_def Let_def)
  have b: "no_auth_token (handshake client) \<and> query_token (handshake client) = Some (QString q) \<and> q \<noteq> [] \<longrightarrow>
        extractTokenFromHandshake client = Some q" for q
    by (auto simp: extractTokenFromHandshake_def Let_def no_auth_token_def split: option.splits)
  have c: "no_auth_token (handshake client) \<and> no_query_token (handshake client)
        \<and> cookie (handshake client) = Some cookies \<and> cookieTokenMatch cookies = Some v \<longrightarrow>
        extractTokenFromHandshake client = Some v" for cookies v
    by (cases cookies)
       (auto simp: extractTokenFromHandshake_def Let_def no_auth_token_def no_query_token_def
          split: option.splits query_value.splits)
  have d: "no_auth_token (handshake client) \<and> no_query_token (handshake client)
        \<and> no_cookie_token (handshake client)
        \<and> authorization (handshake client) = Some a \<and> take 7 a = ''Bearer '' \<longrightarrow>
        extractTokenFromHandshake client = Some (drop 7 a)" for a
    by (auto simp: extractTokenFromHandshake_def Let_def no_auth_token_def no_query_token_def
          no_cookie_token_def split: option.splits query_value.splits)
  have e1: "no_auth_token (handshake client) \<and> no_query_token (handshake client)
        \<and> no_cookie_token (handshake client) \<and> no_bearer_token (handshake client) \<longrightarrow>
        extractTokenFromHandshake client = None"
    by (auto simp: extractTokenFromHandshake_def Let_def no_auth_token_def no_query_token_def
          no_cookie_token_def no_bearer_token_def split: option.splits query_value.splits)
  have e2: "extractTokenFromHandshake client = None \<Longrightarrow>
        (case data_user client of None \<Rightarrow> True | Some u \<Rightarrow> user_id u = []) \<longrightarrow>
           handleConnection verifyAsync findById st client = (st, client, False)"
    by (simp add: handleConnection_def authenticateClient_def)
  from a b c d e1 e2 guard_extract_eq show ?thesis by blast
qed

theorem extractTokenFromHandshake_priority_witness:
  "extractTokenFromHandshake (anonymous_socket
      \<lparr>auth_token = Some ''tokA'', query_token = Some (QString ''tokQ''),
       cookie = Some ''sid=1; token=tokC; theme=dark'', authorization = Some ''Bearer tokB''\<rparr>) = Some ''tokA''
   \<and> extractTokenFromHandshake (anonymous_socket
      \<lparr>auth_token = None, query_token = Some (QString ''tokQ''),
       cookie = Some ''sid=1; token=tokC; theme=dark'', authorization = Some ''Bearer tokB''\<rparr>) = Some ''tokQ''
   \<and> extractTokenFromHandshake (anonymous_socket
      \<lparr>auth_token = Some [], query_token = Some (QArray [''tokQ'', ''tokR'']),
       cookie = Some ''sid=1; token=tokC; theme=dark'', authorization = Some ''Bearer tokB''\<rparr>) = Some ''tokC''
   \<and> extractTokenFromHandshake (anonymous_socket
      \<lparr>auth_token = None, query_token = None,
       cookie = Some ''sid=1; theme=dark'', authorization = Some ''Bearer tokB''\<rparr>) = Some ''tokB''
   \<and> extractTokenFromHandshake (anonymous_socket no_handshake) = None
   \<and> handleConnection sample_verifyAsync sample_findById alice_joined (anonymous_socket no_handshake)
        = (alice_joined, anonymous_socket no_handshake, False)"
proof -
  let ?hA = "\<lparr>auth_token = Some ''tokA'', query_token = Some (QString ''tokQ''),
       cookie = Some ''sid=1; token=tokC; theme=dark'', authorization = Some ''Bearer tokB''\<rparr>"
  let ?hQ = "\<lparr>auth_token = None, query_token = Some (QString ''tokQ''),
       cookie = Some ''sid=1; token=tokC; theme=dark'', authorization = Some ''Bearer tokB''\<rparr>"
  let ?hC = "\<lparr>auth_token = Some [], query_token = Some (QArray [''tokQ'', ''tokR'']),
       cookie = Some ''sid=1; token=tokC; theme=dark'', authorization = Some ''Bearer tokB''\<rparr>"
  let ?hB = "\<lparr>auth_token = None, query_token = None,
       cookie = Some ''sid=1; theme=dark'', authorization = Some ''Bearer tokB''\<rparr>"
  have m1: "cookieTokenMatch ''sid=1; token=tokC; theme=dark'' = Some ''tokC''"
    by code_simp
  have m2: "cookieTokenMatch ''sid=1; theme=dark'' = None"
    by code_simp
  have hs: "handshake (anonymous_socket h) = h" for h
    by (simp add: anonymous_socket_def)
  have du: "data_user (anonymous_socket h) = None" for h
    by (simp add: anonymous_socket_def)
  from extractTokenFromHandshake_priority[of "anonymous_socket ?hA"]
  have a: "extractTokenFromHandshake (anonymous_socket ?hA) = Some ''tokA''"
    by (simp add: hs)
  from extractTokenFromHandshake_priority[of "anonymous_socket ?hQ"]
  have q: "extractTokenFromHandshake (anonymous_socket ?hQ) = Some ''tokQ''"
    by (simp add: hs no_auth_token_def)
  from extractTokenFromHandshake_priority[of "anonymous_socket ?hC"]
  have c: "extractTokenFromHandshake (anonymous_socket ?hC) = Some ''tokC''"
    by (simp add: hs no_auth_token_def no_query_token_def m1)
  from extractTokenFromHandshake_priority[of "anonymous_socket ?hB"]
  have b: "extractTokenFromHandshake (anonymous_socket ?hB) = Some ''tokB''"
    by (simp add: hs no_auth_token_def no_query_token_def no_cookie_token_def m2)
  from extractTokenFromHandshake_priority[of "anonymous_socket no_handshake"
        sample_verifyAsync sample_findById alice_joined]
  have n: "extractTokenFromHandshake (anonymous_socket no_handshake) = None
     \<and> handleConnection sample_verifyAsync sample_findById alice_joined (anonymous_socket no_handshake)
        = (alice_joined, anonymous_socket no_handshake, False)"
    by (simp add: hs du no_auth_token_def no_query_token_def no_cookie_token_def
        no_bearer_token_def no_handshake_def)
  from a q c b n show ?thesis by simp
qed

text \<open>
  C9. An existing entry of the table survives every run of the connection handler, and when
  a connection is accepted for a user who already has an entry, the gateway's state is
  unchanged: the existing membership set is kept.
\<close>

theorem connection_keeps_existing_membership:
  assumes "userRooms st (user_id u) = Some s"
  shows "userRooms (fst (handleConnection verifyAsync findById st client)) (user_id u) = Some s
       \<and> (\<forall>st' client'. handleConnection verifyAsync findById st client = (st', client', True)
              \<and> data_user client' = Some u \<longrightarrow> st' = st)"
proof -
  have kept: "userRooms (fst (handleConnection verifyAsync findById st client)) (user_id u) = Some s"
    using assms by (rule connection_frame)
  have same: "st' = st"
    if "handleConnection verifyAsync findById st client = (st', client', True)"
      and "data_user client' = Some u" for st' client'
    using that assms
    by (auto simp: handleConnection_def init_user_rooms_def split: option.splits if_splits)
  from kept same show ?thesis by blast
qed

theorem connection_keeps_existing_membership_witness:
  "userRooms alice_joined (user_id alice) = Some {board1}
   \<and> fst (handleConnection sample_verifyAsync sample_findById alice_joined
          (alice_socket\<lparr>socket_id := ''sock-alice-2''\<rparr>)) = alice_joined
   \<and> fst (handleConnection sample_verifyAsync sample_findById alice_joined
          (anonymous_socket (no_handshake\<lparr>auth_token := Some ''alice.jwt''\<rparr>))) = alice_joined
   \<and> membership (fst (handleConnection sample_verifyAsync sample_findById alice_joined
          (anonymous_socket (no_handshake\<lparr>auth_token := Some ''alice.jwt''\<rparr>)))) (user_id alice) = {board1}"
proof -
  let ?c1 = "alice_socket\<lparr>socket_id := ''sock-alice-2''\<rparr>"
  let ?c2 = "anonymous_socket (no_handshake\<lparr>auth_token := Some ''alice.jwt''\<rparr>)"
  have entry: "userRooms alice_joined (user_id alice) = Some {board1}"
    by (simp add: alice_joined_userRooms)
  have nonempty: "user_id alice \<noteq> []"
    by (simp add: alice_def)
  have r1: "handleConnection sample_verifyAsync sample_findById alice_joined ?c1 =
              (init_user_rooms alice_joined alice, ?c1, True)"
    using nonempty by (simp add: handleConnection_def alice_socket_def)
  have r2: "handleConnection sample_verifyAsync sample_findById alice_joined ?c2 =
              (init_user_rooms alice_joined alice,
               ?c2\<lparr>data_user := Some alice, data_userId := Some (user_id alice)\<rparr>, True)"
    by (simp add: handleConnection_def authenticateClient_def extractTokenFromHandshake_def
        anonymous_socket_def no_handshake_def sample_verifyAsync_def sample_findById_def)
  have u1: "data_user ?c1 = Some alice"
    by (simp add: alice_socket_def)
  have u2: "data_user (?c2\<lparr>data_user := Some alice, data_userId := Some (user_id alice)\<rparr>) = Some alice"
    by simp
  from connection_keeps_existing_membership[OF entry, of sample_verifyAsync sample_findById ?c1]
    r1 u1
  have s1: "init_user_rooms alice_joined alice = alice_joined"
    by blast
  from connection_keeps_existing_membership[OF entry, of sample_verifyAsync sample_findById ?c2]
    r2 u2
  have s2: "init_user_rooms alice_joined alice = alice_joined"
    by blast
  from s1 s2 entry show ?thesis
    unfolding r1 r2 by (simp add: membership_alice_joined)
qed

text \<open>
  C10. A leave request always emits \<open>user_left\<close> to the other sockets of the room and
  \<open>left_whiteboard\<close> to the sender. Also when the user was never in the board's set and
  the socket never in the room: nothing changes, and every socket of the room receives
  \<open>user_left\<close>.
\<close>

theorem leave_always_announced:
  "snd (handleLeaveWhiteboard st sid u w) =
     [(rooms st (roomName w) - {sid}, UserLeft (user_id u) (email u) w), ({sid}, LeftWhiteboard w)]
   \<and> (w \<notin> membership st (user_id u) \<and> sid \<notin> rooms st (roomName w) \<longrightarrow>
        rooms (fst (handleLeaveWhiteboard st sid u w)) = rooms st
      \<and> userRooms (fst (handleLeaveWhiteboard st sid u w)) = userRooms st
      \<and> (\<forall>s \<in> rooms st (roomName w).
            received (snd (handleLeaveWhiteboard st sid u w)) s = [UserLeft (user_id u) (email u) w]))"
proof -
  have "w \<notin> membership st (user_id u) \<Longrightarrow> userRooms st (user_id u) = Some s \<Longrightarrow>
        (userRooms st)(user_id u \<mapsto> s - {w}) = userRooms st" for s
    by (auto simp: membership_def)
  then show ?thesis
    unfolding leave_result
    by (auto simp: received_def split: option.splits)
qed

theorem leave_always_announced_witness:
  "board1 \<notin> membership alice_joined (user_id bob)
   \<and> ''sock-bob'' \<notin> rooms alice_joined (roomName board1)
   \<and> received (snd (handleLeaveWhiteboard alice_joined ''sock-bob'' bob board1)) ''sock-alice''
        = [UserLeft (user_id bob) (email bob) board1]
   \<and> received (snd (handleLeaveWhiteboard alice_joined ''sock-bob'' bob board1)) ''sock-bob''
        = [LeftWhiteboard board1]
   \<and> rooms (fst (handleLeaveWhiteboard alice_joined ''sock-bob'' bob board1)) = rooms alice_joined
   \<and> userRooms (fst (handleLeaveWhiteboard alice_joined ''sock-bob'' bob board1)) = userRooms alice_joined"
proof -
  have never: "board1 \<notin> membership alice_joined (user_id bob)"
    by (simp add: membership_alice_joined)
  have out: "''sock-bob'' \<notin> rooms alice_joined (roomName board1)"
    by (simp add: room_alice_joined)
  from leave_always_announced[of alice_joined "''sock-bob''" bob board1] never out
  show ?thesis
    by (simp add: room_alice_joined received_def)
qed

end
